theory Spec2Isabelle
  imports Main "HOL-Library.Word" "HOL-Library.Signed_Division" "HOL-Library.Monad_Syntax"
begin

unbundle bit_operations_syntax

section \<open>Machine model\<close>

text \<open>
  The allocator of \<^verbatim>\<open>mm.c\<close> is compiled with \<^verbatim>\<open>-m32\<close>: pointers, \<^verbatim>\<open>int\<close>,
  \<^verbatim>\<open>long\<close> and \<^verbatim>\<open>size_t\<close> are all 32 bits wide.  Memory is byte addressed and
  little endian.  A memory access outside the region handed out by the provider is
  undefined behaviour in C; the model makes it the value \<open>None\<close> (a fault) of the
  access, and every function that touches memory returns an \<open>option\<close>.
  Signed \<^verbatim>\<open>int\<close> arithmetic wraps around (two's complement).
\<close>

type_synonym addr = "32 word"
type_synonym cint = "32 word"
type_synonym byte = "8 word"

record state =
  mem :: "addr \<Rightarrow> byte"
  heap_lo :: nat
  brk :: nat
  heap_max :: nat
  heap_blocks :: addr
  free_headp :: addr
  free_tailp :: addr

definition NULL :: addr where
  "NULL = 0"

definition in_region :: "state \<Rightarrow> addr \<Rightarrow> nat \<Rightarrow> bool" where
  "in_region s a n \<longleftrightarrow> heap_lo s \<le> unat a \<and> unat a + n \<le> brk s"

definition load32 :: "(addr \<Rightarrow> byte) \<Rightarrow> addr \<Rightarrow> 32 word" where
  "load32 m a =
     ucast (m a) OR push_bit 8 (ucast (m (a + 1))) OR
     push_bit 16 (ucast (m (a + 2))) OR push_bit 24 (ucast (m (a + 3)))"

definition store32 :: "(addr \<Rightarrow> byte) \<Rightarrow> addr \<Rightarrow> 32 word \<Rightarrow> (addr \<Rightarrow> byte)" where
  "store32 m a v =
     m(a := ucast v, a + 1 := ucast (drop_bit 8 v),
       a + 2 := ucast (drop_bit 16 v), a + 3 := ucast (drop_bit 24 v))"

definition read_int :: "state \<Rightarrow> addr \<Rightarrow> 32 word option" where
  "read_int s a = (if in_region s a 4 then Some (load32 (mem s) a) else None)"

definition write_int :: "state \<Rightarrow> addr \<Rightarrow> 32 word \<Rightarrow> state option" where
  "write_int s a v =
     (if in_region s a 4 then Some (s\<lparr>mem := store32 (mem s) a v\<rparr>) else None)"

section \<open>Region growth provider\<close>

text \<open>
  Modelled from the spec: \<^verbatim>\<open>mem_sbrk\<close> of \<^verbatim>\<open>memlib.h\<close> is not part of the sources.
  The provider supplies \<open>grow(byte_count) -> base_address_or_failure\<close>; the region only
  grows, and failure is the sentinel \<open>(void *)-1\<close>.  The provider owns the bytes from
  \<open>heap_lo\<close> up to \<open>brk\<close> and can grow up to \<open>heap_max\<close>.
\<close>

definition mem_sbrk :: "state \<Rightarrow> cint \<Rightarrow> addr \<times> state" where
  "mem_sbrk s incr =
     (if incr <s 0 \<or> heap_max s < brk s + unat incr then (- 1, s)
      else (word_of_nat (brk s), s\<lparr>brk := brk s + unat incr\<rparr>))"

section \<open>Block metadata\<close>

definition get_size :: "state \<Rightarrow> addr \<Rightarrow> cint option" where
  "get_size s bp = do { v \<leftarrow> read_int s bp; Some (v AND NOT 7) }"

definition get_allocated :: "state \<Rightarrow> addr \<Rightarrow> cint option" where
  "get_allocated s bp = do { v \<leftarrow> read_int s bp; Some (v AND 1) }"

definition set_header :: "state \<Rightarrow> addr \<Rightarrow> cint \<Rightarrow> cint \<Rightarrow> state option" where
  "set_header s bp sz allocated = write_int s bp (sz OR allocated)"

definition set_footer :: "state \<Rightarrow> addr \<Rightarrow> cint \<Rightarrow> cint \<Rightarrow> state option" where
  "set_footer s bp sz allocated =
     do { this_size \<leftarrow> get_size s bp; set_header s (bp + this_size - 4) sz allocated }"

definition get_payload_addr :: "addr \<Rightarrow> addr" where
  "get_payload_addr bp = bp + 4"

definition get_prev :: "state \<Rightarrow> addr \<Rightarrow> addr option" where
  "get_prev s bp = do { previous_size \<leftarrow> get_size s (bp - 4); Some (bp - previous_size) }"

definition get_next :: "state \<Rightarrow> addr \<Rightarrow> addr option" where
  "get_next s bp = do { this_size \<leftarrow> get_size s bp; Some (bp + this_size) }"

section \<open>Free list\<close>

text \<open>\<^verbatim>\<open>FreeBlockHeader\<close>: \<open>prev_free\<close> at byte offset 4, \<open>next_free\<close> at byte offset 8.\<close>

definition get_prev_free :: "state \<Rightarrow> addr \<Rightarrow> addr option" where
  "get_prev_free s bp = read_int s (bp + 4)"

definition get_next_free :: "state \<Rightarrow> addr \<Rightarrow> addr option" where
  "get_next_free s bp = read_int s (bp + 8)"

definition set_prev_free :: "state \<Rightarrow> addr \<Rightarrow> addr \<Rightarrow> state option" where
  "set_prev_free s bp prev = write_int s (bp + 4) prev"

definition set_next_free :: "state \<Rightarrow> addr \<Rightarrow> addr \<Rightarrow> state option" where
  "set_next_free s bp nxt = write_int s (bp + 8) nxt"

definition free_list_prepend :: "state \<Rightarrow> addr \<Rightarrow> state option" where
  "free_list_prepend s bp =
     (if free_headp s \<noteq> NULL \<or> free_tailp s \<noteq> NULL then
        do { s1 \<leftarrow> set_prev_free s bp NULL;
             s2 \<leftarrow> set_next_free s1 bp (free_headp s1);
             s3 \<leftarrow> set_prev_free s2 (free_headp s2) bp;
             Some (s3\<lparr>free_headp := bp\<rparr>) }
      else if free_headp s = NULL \<and> free_tailp s = NULL then
        do { s1 \<leftarrow> set_prev_free s bp NULL;
             s2 \<leftarrow> set_next_free s1 bp NULL;
             Some (s2\<lparr>free_headp := bp, free_tailp := bp\<rparr>) }
      else Some s)"

definition free_list_append :: "state \<Rightarrow> addr \<Rightarrow> state option" where
  "free_list_append s bp =
     (if free_headp s \<noteq> NULL \<or> free_tailp s \<noteq> NULL then
        do { s1 \<leftarrow> set_next_free s bp NULL;
             s2 \<leftarrow> set_next_free s1 (free_tailp s1) bp;
             s3 \<leftarrow> set_prev_free s2 bp (free_tailp s2);
             Some (s3\<lparr>free_tailp := bp\<rparr>) }
      else if free_headp s = NULL \<and> free_tailp s = NULL then
        do { s1 \<leftarrow> set_prev_free s bp NULL;
             s2 \<leftarrow> set_next_free s1 bp NULL;
             Some (s2\<lparr>free_headp := bp, free_tailp := bp\<rparr>) }
      else Some s)"

text \<open>
  Each branch re-reads the link fields of \<open>bp\<close> where the source calls
  \<^verbatim>\<open>get_prev_free\<close>/\<^verbatim>\<open>get_next_free\<close> again.
\<close>

definition free_list_remove :: "state \<Rightarrow> addr \<Rightarrow> state option" where
  "free_list_remove s bp =
     do { p \<leftarrow> get_prev_free s bp;
          n \<leftarrow> get_next_free s bp;
          if p = NULL \<and> n \<noteq> NULL then
            do { s1 \<leftarrow> set_prev_free s n NULL;
                 n1 \<leftarrow> get_next_free s1 bp;
                 set_next_free (s1\<lparr>free_headp := n1\<rparr>) bp NULL }
          else if n = NULL \<and> p \<noteq> NULL then
            do { s1 \<leftarrow> set_next_free s p NULL;
                 p1 \<leftarrow> get_prev_free s1 bp;
                 set_prev_free (s1\<lparr>free_tailp := p1\<rparr>) bp NULL }
          else if p = NULL \<and> n = NULL then
            do { s1 \<leftarrow> set_prev_free (s\<lparr>free_headp := NULL, free_tailp := NULL\<rparr>) bp NULL;
                 set_next_free s1 bp NULL }
          else if p \<noteq> NULL \<and> n \<noteq> NULL then
            do { s1 \<leftarrow> set_next_free s p n;
                 n1 \<leftarrow> get_next_free s1 bp;
                 p1 \<leftarrow> get_prev_free s1 bp;
                 set_prev_free s1 n1 p1 }
          else Some s }"

section \<open>Coalescing\<close>

text \<open>
  \<^verbatim>\<open>free_coalesce\<close>.  The comparison \<^verbatim>\<open>size < 1000\<close> is on \<^verbatim>\<open>int\<close>, hence signed.
\<close>

definition free_coalesce :: "state \<Rightarrow> addr \<Rightarrow> (addr \<times> state) option" where
  "free_coalesce s bp =
     do { sz \<leftarrow> get_size s bp;
          s1 \<leftarrow> set_header s bp sz 0;
          s2 \<leftarrow> set_footer s1 bp sz 0;
          pv \<leftarrow> get_prev s2 bp;
          prev_alloc \<leftarrow> get_allocated s2 pv;
          nx \<leftarrow> get_next s2 bp;
          next_alloc \<leftarrow> get_allocated s2 nx;
          if prev_alloc \<noteq> 0 \<and> next_alloc \<noteq> 0 then
            do { s3 \<leftarrow> (if sz <s 1000 then free_list_prepend s2 bp
                        else free_list_append s2 bp);
                 Some (bp, s3) }
          else if prev_alloc \<noteq> 0 \<and> next_alloc = 0 then
            do { nx1 \<leftarrow> get_next s2 bp;
                 s3 \<leftarrow> free_list_remove s2 nx1;
                 s4 \<leftarrow> (if sz <s 1000 then free_list_prepend s3 bp
                        else free_list_append s3 bp);
                 nx2 \<leftarrow> get_next s4 bp;
                 nextSize \<leftarrow> get_size s4 nx2;
                 s5 \<leftarrow> set_header s4 bp (sz + nextSize) 0;
                 s6 \<leftarrow> set_footer s5 bp (sz + nextSize) 0;
                 Some (bp, s6) }
          else if prev_alloc = 0 \<and> next_alloc \<noteq> 0 then
            do { pv1 \<leftarrow> get_prev s2 bp;
                 prevSize \<leftarrow> get_size s2 pv1;
                 pv2 \<leftarrow> get_prev s2 bp;
                 s3 \<leftarrow> set_header s2 pv2 (sz + prevSize) 0;
                 pv3 \<leftarrow> get_prev s3 bp;
                 s4 \<leftarrow> set_footer s3 pv3 (sz + prevSize) 0;
                 pv4 \<leftarrow> get_prev s4 bp;
                 Some (pv4, s4) }
          else
            do { nx1 \<leftarrow> get_next s2 bp;
                 s3 \<leftarrow> free_list_remove s2 nx1;
                 nx2 \<leftarrow> get_next s3 bp;
                 nextSize \<leftarrow> get_size s3 nx2;
                 pv1 \<leftarrow> get_prev s3 bp;
                 prevSize \<leftarrow> get_size s3 pv1;
                 pv2 \<leftarrow> get_prev s3 bp;
                 s4 \<leftarrow> set_header s3 pv2 (prevSize + sz + nextSize) 0;
                 pv3 \<leftarrow> get_prev s4 bp;
                 s5 \<leftarrow> set_footer s4 pv3 (prevSize + sz + nextSize) 0;
                 pv4 \<leftarrow> get_prev s5 bp;
                 Some (pv4, s5) } }"

section \<open>Growing the heap, initialisation, free\<close>

text \<open>\<^verbatim>\<open>extend_heap\<close> returns \<open>NULL\<close> when the provider fails.\<close>

definition extend_heap :: "state \<Rightarrow> cint \<Rightarrow> (addr \<times> state) option" where
  "extend_heap s sz =
     (case mem_sbrk s sz of (bp, s0) \<Rightarrow>
        if bp = - 1 then Some (NULL, s0)
        else
          do { s1 \<leftarrow> set_header s0 (bp - 4) sz 0;
               s2 \<leftarrow> set_footer s1 (bp - 4) sz 0;
               nx \<leftarrow> get_next s2 (bp - 4);
               s3 \<leftarrow> set_header s2 nx 0 1;
               free_coalesce s3 (bp - 4) })"

text \<open>\<^verbatim>\<open>mm_init\<close> returns \<open>-1\<close> or \<open>0\<close>; the result of \<^verbatim>\<open>extend_heap(200)\<close> is dropped.\<close>

definition mm_init :: "state \<Rightarrow> (cint \<times> state) option" where
  "mm_init s =
     (case mem_sbrk (s\<lparr>free_headp := NULL, free_tailp := NULL\<rparr>) 16 of (new_region, s0) \<Rightarrow>
        if new_region = - 1 then Some (- 1, s0)
        else
          do { s1 \<leftarrow> set_header (s0\<lparr>heap_blocks := new_region\<rparr>) new_region 0 0;
               s2 \<leftarrow> set_header s1 (heap_blocks s1 + 4) 8 1;
               s3 \<leftarrow> set_footer s2 (heap_blocks s2 + 4) 8 1;
               s4 \<leftarrow> set_header s3 (heap_blocks s3 + 12) 0 1;
               r \<leftarrow> extend_heap (s4\<lparr>heap_blocks := heap_blocks s4 + 4\<rparr>) 200;
               Some (0, snd r) })"

definition mm_free :: "state \<Rightarrow> addr \<Rightarrow> state option" where
  "mm_free s bp = do { r \<leftarrow> free_coalesce s (bp - 4); Some (snd r) }"

section \<open>Fit search\<close>

text \<open>
  The two \<^verbatim>\<open>while (hptr)\<close> loops of \<^verbatim>\<open>find_fit\<close>.  They follow link fields read from
  memory and need not terminate on a cyclic list, so they are partial functions: the
  outer \<open>None\<close> is a loop that never exits, \<open>Some None\<close> a fault, \<open>Some (Some p)\<close> the
  returned pointer.  Leaving a loop falls through to \<^verbatim>\<open>return NULL\<close>.
  The last \<open>else\<close> of each loop stands for the \<^verbatim>\<open>else if (bSize < size)\<close> being false:
  the loop goes round again with \<open>hptr\<close> unchanged.
\<close>

partial_function (option) find_fit_from_tail :: "state \<Rightarrow> cint \<Rightarrow> addr \<Rightarrow> addr option option" where
  "find_fit_from_tail s sz hptr =
     (if hptr = NULL then Some (Some NULL)
      else case get_size s hptr of
        None \<Rightarrow> Some None
      | Some bSize \<Rightarrow>
          if sz \<le>s bSize then
            Some (do { p \<leftarrow> get_prev_free s hptr;
                       if p \<noteq> NULL then
                         do { p1 \<leftarrow> get_prev_free s hptr;
                              nSize \<leftarrow> get_size s p1;
                              if nSize <s bSize \<and> sz \<le>s nSize then get_prev_free s hptr
                              else Some hptr }
                       else Some hptr })
          else if bSize <s sz then
            (case get_prev_free s hptr of
               None \<Rightarrow> Some None
             | Some p \<Rightarrow> find_fit_from_tail s sz p)
          else find_fit_from_tail s sz hptr)"

partial_function (option) find_fit_from_head :: "state \<Rightarrow> cint \<Rightarrow> addr \<Rightarrow> addr option option" where
  "find_fit_from_head s sz hptr =
     (if hptr = NULL then Some (Some NULL)
      else case get_size s hptr of
        None \<Rightarrow> Some None
      | Some bSize \<Rightarrow>
          if sz \<le>s bSize then
            Some (do { n \<leftarrow> get_next_free s hptr;
                       if n \<noteq> NULL then
                         do { n1 \<leftarrow> get_next_free s hptr;
                              nSize \<leftarrow> get_size s n1;
                              if nSize <s bSize \<and> sz \<le>s nSize then get_next_free s hptr
                              else Some hptr }
                       else Some hptr })
          else if bSize <s sz then
            (case get_next_free s hptr of
               None \<Rightarrow> Some None
             | Some n \<Rightarrow> find_fit_from_head s sz n)
          else find_fit_from_head s sz hptr)"

definition find_fit :: "state \<Rightarrow> cint \<Rightarrow> addr option option" where
  "find_fit s sz =
     (if 270 <s sz then find_fit_from_tail s sz (free_tailp s)
      else if sz \<le>s 270 then find_fit_from_head s sz (free_headp s)
      else Some (Some NULL))"

section \<open>Placement\<close>

definition place :: "state \<Rightarrow> addr \<Rightarrow> cint \<Rightarrow> (addr \<times> state) option" where
  "place s bp sz =
     do { bsize \<leftarrow> get_size s bp;
          s1 \<leftarrow> free_list_remove s bp;
          if bsize - sz \<le>s 8 then
            do { b1 \<leftarrow> get_size s1 bp;
                 s2 \<leftarrow> set_header s1 bp b1 1;
                 b2 \<leftarrow> get_size s2 bp;
                 s3 \<leftarrow> set_footer s2 bp b2 1;
                 Some (bp, s3) }
          else if 25 <s sz then
            do { s2 \<leftarrow> set_header s1 bp (bsize - sz) 0;
                 s3 \<leftarrow> set_footer s2 bp (bsize - sz) 0;
                 nx \<leftarrow> get_next s3 bp;
                 s4 \<leftarrow> set_header s3 nx sz 1;
                 nx1 \<leftarrow> get_next s4 bp;
                 s5 \<leftarrow> set_footer s4 nx1 sz 1;
                 r \<leftarrow> free_coalesce s5 bp;
                 nx2 \<leftarrow> get_next (snd r) bp;
                 Some (nx2, snd r) }
          else if sz \<le>s 25 then
            do { s2 \<leftarrow> set_header s1 bp sz 1;
                 s3 \<leftarrow> set_footer s2 bp sz 1;
                 nx \<leftarrow> get_next s3 bp;
                 s4 \<leftarrow> set_header s3 nx (bsize - sz) 0;
                 nx1 \<leftarrow> get_next s4 bp;
                 s5 \<leftarrow> set_footer s4 nx1 (bsize - sz) 0;
                 nx2 \<leftarrow> get_next s5 bp;
                 r \<leftarrow> free_coalesce s5 nx2;
                 Some (bp, snd r) }
          else Some (bp, s1) }"

text \<open>\<^verbatim>\<open>int\<close> division truncates towards zero: \<open>sdiv\<close> on the signed value.\<close>

definition required_block_size :: "cint \<Rightarrow> cint" where
  "required_block_size payload_size =
     word_of_int (sint (payload_size + 8 + 7) sdiv 8) * 8"

section \<open>Allocation\<close>

text \<open>
  The \<^verbatim>\<open>while (1)\<close> loop of \<^verbatim>\<open>mm_malloc\<close>: extend the heap, search again, and return
  only when a fit is found.  The outer \<open>None\<close> is the loop that never returns.
\<close>

partial_function (option) mm_malloc_loop :: "state \<Rightarrow> cint \<Rightarrow> (addr \<times> state) option option" where
  "mm_malloc_loop s required_size =
     (case extend_heap s required_size of
        None \<Rightarrow> Some None
      | Some r \<Rightarrow>
          (case find_fit (snd r) required_size of
             None \<Rightarrow> None
           | Some None \<Rightarrow> Some None
           | Some (Some f) \<Rightarrow>
               if f \<noteq> NULL then
                 (case find_fit (snd r) required_size of
                    None \<Rightarrow> None
                  | Some None \<Rightarrow> Some None
                  | Some (Some f1) \<Rightarrow>
                      Some (do { b \<leftarrow> place (snd r) f1 required_size;
                                 Some (get_payload_addr (fst b), snd b) }))
               else mm_malloc_loop (snd r) required_size))"

definition mm_malloc :: "state \<Rightarrow> 32 word \<Rightarrow> (addr \<times> state) option option" where
  "mm_malloc s sz =
     (if sz = 0 then Some (Some (NULL, s))
      else
        (case find_fit s (required_block_size sz) of
           None \<Rightarrow> None
         | Some None \<Rightarrow> Some None
         | Some (Some f) \<Rightarrow>
             if f \<noteq> NULL then
               (case find_fit s (required_block_size sz) of
                  None \<Rightarrow> None
                | Some None \<Rightarrow> Some None
                | Some (Some f1) \<Rightarrow>
                    Some (do { b \<leftarrow> place s f1 (required_block_size sz);
                               Some (get_payload_addr (fst b), snd b) }))
             else
               (case find_fit s (required_block_size sz) of
                  None \<Rightarrow> None
                | Some None \<Rightarrow> Some None
                | Some (Some f2) \<Rightarrow>
                    if f2 = NULL then mm_malloc_loop s (required_block_size sz)
                    else Some (Some (NULL, s)))))"

section \<open>Resizing\<close>

text \<open>
  \<^verbatim>\<open>memcpy\<close> of \<^verbatim>\<open>string.h\<close>: copies \<open>n\<close> bytes; both ranges must lie in the region.
  The copy reads the source bytes as they were before the call.
\<close>

definition memcpy :: "state \<Rightarrow> addr \<Rightarrow> addr \<Rightarrow> 32 word \<Rightarrow> state option" where
  "memcpy s dst src n =
     (if n = 0 then Some s
      else if in_region s dst (unat n) \<and> in_region s src (unat n) then
        Some (s\<lparr>mem := (\<lambda>a. if a - dst < n then mem s (src + (a - dst)) else mem s a)\<rparr>)
      else None)"

text \<open>
  \<^verbatim>\<open>mm_realloc\<close>.  The five locals are computed before any test, from the header at
  \<open>ptr - 4\<close>; the values of type \<^verbatim>\<open>size_t\<close> are compared unsigned.
\<close>

definition mm_realloc :: "state \<Rightarrow> addr \<Rightarrow> 32 word \<Rightarrow> (addr \<times> state) option option" where
  "mm_realloc s ptr sz =
     (let hptr = ptr - 4; rSize = required_block_size sz in
      case (do { size_block \<leftarrow> get_size s hptr;
                 a1 \<leftarrow> get_size s hptr;
                 nx \<leftarrow> get_next s hptr;
                 a2 \<leftarrow> get_size s nx;
                 Some (size_block, a1 + a2) }) of
        None \<Rightarrow> Some None
      | Some (size_block, aSize) \<Rightarrow>
          if hptr = NULL then mm_malloc s sz
          else if sz = 0 then
            Some (do { s1 \<leftarrow> mm_free s hptr; Some (NULL, s1) })
          else if size_block < rSize then
            (case (do { nx \<leftarrow> get_next s hptr; get_allocated s nx }) of
               None \<Rightarrow> Some None
             | Some next_alloc \<Rightarrow>
                 if next_alloc = 0 \<and> rSize \<le> aSize then
                   Some (do { nx \<leftarrow> get_next s hptr;
                              s1 \<leftarrow> free_list_remove s nx;
                              if aSize - rSize \<le> 250 then
                                do { s2 \<leftarrow> set_header s1 hptr aSize 1;
                                     s3 \<leftarrow> set_footer s2 hptr aSize 1;
                                     Some (get_payload_addr hptr, s3) }
                              else
                                do { s2 \<leftarrow> set_header s1 hptr rSize 1;
                                     s3 \<leftarrow> set_footer s2 hptr rSize 1;
                                     nx1 \<leftarrow> get_next s3 hptr;
                                     s4 \<leftarrow> set_header s3 nx1 (aSize - rSize) 0;
                                     nx2 \<leftarrow> get_next s4 hptr;
                                     s5 \<leftarrow> set_footer s4 nx2 (aSize - rSize) 0;
                                     nx3 \<leftarrow> get_next s5 hptr;
                                     r \<leftarrow> free_coalesce s5 nx3;
                                     Some (get_payload_addr hptr, snd r) } })
                 else
                   (case mm_malloc s sz of
                      None \<Rightarrow> None
                    | Some None \<Rightarrow> Some None
                    | Some (Some (new_ptr, s1)) \<Rightarrow>
                        Some (do { old \<leftarrow> get_size s1 (ptr - 4);
                                   s2 \<leftarrow> memcpy s1 new_ptr ptr
                                          (if old - 8 < sz then old - 8 else sz);
                                   s3 \<leftarrow> mm_free s2 ptr;
                                   Some (new_ptr, s3) })))
          else if rSize \<le> size_block then
            Some (if 250 < size_block - rSize then
                    do { s1 \<leftarrow> set_header s hptr rSize 1;
                         s2 \<leftarrow> set_footer s1 hptr rSize 1;
                         nx1 \<leftarrow> get_next s2 hptr;
                         s3 \<leftarrow> set_header s2 nx1 (size_block - rSize) 0;
                         nx2 \<leftarrow> get_next s3 hptr;
                         s4 \<leftarrow> set_footer s3 nx2 (size_block - rSize) 0;
                         nx3 \<leftarrow> get_next s4 hptr;
                         r \<leftarrow> free_coalesce s4 nx3;
                         Some (get_payload_addr hptr, snd r) }
                  else Some (get_payload_addr hptr, s))
          else Some (Some (NULL, s)))"

section \<open>Specification vocabulary\<close>

text \<open>The pointer whose numeric value is \<open>n\<close>.\<close>

definition ptr :: "nat \<Rightarrow> addr" where
  "ptr n = word_of_nat n"

text \<open>
  A segment of the doubly linked list, as the list of its block addresses in
  \<open>next_free\<close> order: every node is non-null and has a readable header, its \<open>prev_free\<close>
  is the node before it (\<open>p\<close> for the first) and its \<open>next_free\<close> the node after it
  (\<open>q\<close> for the last).  The free list is the segment from \<open>free_headp\<close> to
  \<open>free_tailp\<close> that has \<open>NULL\<close> at both ends, without repetition.
\<close>

fun dll :: "state \<Rightarrow> addr \<Rightarrow> addr list \<Rightarrow> addr \<Rightarrow> bool" where
  "dll s p [] q = True"
| "dll s p (x # xs) q =
     (x \<noteq> NULL \<and> get_size s x \<noteq> None \<and> get_prev_free s x = Some p \<and>
      get_next_free s x = Some (case xs of [] \<Rightarrow> q | y # _ \<Rightarrow> y) \<and> dll s x xs q)"

definition free_list :: "state \<Rightarrow> addr list \<Rightarrow> bool" where
  "free_list s xs \<longleftrightarrow>
     distinct xs \<and> dll s NULL xs NULL \<and>
     free_headp s = (case xs of [] \<Rightarrow> NULL | x # _ \<Rightarrow> x) \<and>
     free_tailp s = (if xs = [] then NULL else last xs)"

text \<open>
  The nodes of a list lie apart when the 12 bytes of header and link fields of any two
  of them do not overlap.
\<close>

fun nodes_apart :: "addr list \<Rightarrow> bool" where
  "nodes_apart [] = True"
| "nodes_apart (x # xs) =
     ((\<forall>y\<in>set xs. unat x + 12 \<le> unat y \<or> unat y + 12 \<le> unat x) \<and> nodes_apart xs)"

text \<open>\<open>prev_chain\<close> is the part of \<open>dll\<close> that a walk from the tail reads.\<close>

fun prev_chain :: "state \<Rightarrow> addr \<Rightarrow> addr list \<Rightarrow> bool" where
  "prev_chain s p [] = True"
| "prev_chain s p (x # xs) =
     (x \<noteq> NULL \<and> get_size s x \<noteq> None \<and> get_prev_free s x = Some p \<and> prev_chain s x xs)"

text \<open>
  The fit search as the specification words it: scan the blocks in the given order for
  the first one that is large enough; peek one block further, and prefer that one if it
  is smaller and still large enough; none (\<open>NULL\<close>) if no block is large enough.
  Requests of at least 270 bytes scan from the tail, the others from the head.
  Sizes are compared as the code compares them (signed \<^verbatim>\<open>int\<close>).
\<close>

definition size_at :: "state \<Rightarrow> addr \<Rightarrow> cint" where
  "size_at s x = load32 (mem s) x AND NOT 7"

fun scan_fit :: "(addr \<Rightarrow> cint) \<Rightarrow> cint \<Rightarrow> addr list \<Rightarrow> addr" where
  "scan_fit size_of req [] = NULL"
| "scan_fit size_of req (x # xs) =
     (if req \<le>s size_of x then
        (case xs of
           [] \<Rightarrow> x
         | y # _ \<Rightarrow> if size_of y <s size_of x \<and> req \<le>s size_of y then y else x)
      else scan_fit size_of req xs)"

definition find_fit_spec :: "state \<Rightarrow> cint \<Rightarrow> addr list \<Rightarrow> addr" where
  "find_fit_spec s req xs = scan_fit (size_at s) req (if 270 \<le>s req then rev xs else xs)"

text \<open>
  Heap traversal: from the prologue, each block leads to the block \<^verbatim>\<open>get_next\<close> finds.
  Header and footer of a block agree when they decode to the same size and allocated
  bit; the footer is the word at \<open>bp + size - 4\<close>.
\<close>

inductive reachable :: "state \<Rightarrow> addr \<Rightarrow> bool" for s :: state where
  start: "reachable s (heap_blocks s)"
| step: "reachable s bp \<Longrightarrow> get_next s bp = Some nx \<Longrightarrow> reachable s nx"

definition header_footer_agree :: "state \<Rightarrow> addr \<Rightarrow> bool" where
  "header_footer_agree s bp \<longleftrightarrow>
     (case get_size s bp of
        None \<Rightarrow> False
      | Some sz \<Rightarrow>
          get_size s (bp + sz - 4) = Some sz \<and>
          get_allocated s (bp + sz - 4) = get_allocated s bp)"

section \<open>Concrete heaps\<close>

text \<open>
  A memory given by its 32-bit words at 4-byte aligned addresses; every other byte is 0.
  \<open>ins\<close> keeps the list sorted by address, so that a heap reached by running the
  allocator has one normal form.
\<close>

definition aligned4 :: "addr \<Rightarrow> bool" where
  "aligned4 a \<longleftrightarrow> unat a mod 4 = 0"

fun ins :: "addr \<Rightarrow> 32 word \<Rightarrow> (addr \<times> 32 word) list \<Rightarrow> (addr \<times> 32 word) list" where
  "ins a v [] = [(a, v)]"
| "ins a v ((k, w) # xs) =
     (if a = k then (a, v) # xs
      else if a < k then (a, v) # (k, w) # xs
      else (k, w) # ins a v xs)"

fun mem_of :: "(addr \<times> 32 word) list \<Rightarrow> addr \<Rightarrow> byte" where
  "mem_of [] = (\<lambda>_. 0)"
| "mem_of ((k, w) # xs) = store32 (mem_of xs) k w"

fun lookup32 :: "(addr \<times> 32 word) list \<Rightarrow> addr \<Rightarrow> 32 word" where
  "lookup32 [] a = 0"
| "lookup32 ((k, w) # xs) a = (if a = k then w else lookup32 xs a)"

text \<open>
  \<open>s0\<close>: a fresh provider owning nothing yet, with room for 4096 bytes, at an 8-byte
  aligned base address.  \<open>s_init\<close> is the heap after \<^verbatim>\<open>mm_init\<close>; the other states
  are reached from it by the calls named in the lemmas \<open>run_*\<close> below.
\<close>

definition s0 :: state where
  "s0 = \<lparr>mem = mem_of [], heap_lo = 4096, brk = 4096, heap_max = 8192,
         heap_blocks = 0, free_headp = 0, free_tailp = 0\<rparr>"

definition s_init :: state where
  "s_init =
     \<lparr>mem = mem_of
       [(4096, 0), (4100, 9), (4104, 9), (4108, 200), (4112, 0), (4116, 0), (4304, 200),
        (4308, 1)],
     heap_lo = 4096, brk = 4312, heap_max = 8192,
     heap_blocks = 4100, free_headp = 4108, free_tailp = 4108\<rparr>"

definition s_a1 :: state where
  "s_a1 =
     \<lparr>mem = mem_of
       [(4096, 0), (4100, 9), (4104, 9), (4108, 25), (4112, 0), (4116, 0), (4128, 25),
        (4132, 176), (4136, 0), (4140, 0), (4304, 176), (4308, 1)],
     heap_lo = 4096, brk = 4312, heap_max = 8192, 
     heap_blocks = 4100, free_headp = 4132, free_tailp = 4132\<rparr>"

definition s_free :: state where
  "s_free =
     \<lparr>mem = mem_of
       [(4096, 0), (4100, 9), (4104, 9), (4108, 200), (4112, 0), (4116, 0), (4128, 24),
        (4132, 176), (4136, 0), (4140, 0), (4304, 200), (4308, 1)],
     heap_lo = 4096, brk = 4312, heap_max = 8192, 
     heap_blocks = 4100, free_headp = 4108, free_tailp = 4108\<rparr>"

definition s_rz :: state where
  "s_rz =
     \<lparr>mem = mem_of
       [(4096, 8), (4100, 8), (4104, 8), (4108, 8), (4112, 0), (4116, 0), (4120, 0),
        (4128, 25), (4132, 176), (4136, 0), (4140, 0), (4304, 176), (4308, 1)],
     heap_lo = 4096, brk = 4312, heap_max = 8192, 
     heap_blocks = 4100, free_headp = 0, free_tailp = 0\<rparr>"

definition s_a2 :: state where
  "s_a2 =
     \<lparr>mem = mem_of
       [(4096, 0), (4100, 9), (4104, 9), (4108, 25), (4112, 0), (4116, 0), (4128, 25),
        (4132, 25), (4136, 0), (4140, 0), (4152, 25), (4156, 152), (4160, 0),
        (4164, 0), (4304, 152), (4308, 1)],
     heap_lo = 4096, brk = 4312, heap_max = 8192, 
     heap_blocks = 4100, free_headp = 4156, free_tailp = 4156\<rparr>"

definition s_w :: state where
  "s_w =
     \<lparr>mem = mem_of
       [(4096, 0), (4100, 9), (4104, 9), (4108, 25), (4112, 0), (4116, 0), (4124, 24),
        (4128, 25), (4132, 25), (4136, 0), (4140, 0), (4152, 25), (4156, 152),
        (4160, 0), (4164, 0), (4304, 152), (4308, 1)],
     heap_lo = 4096, brk = 4312, heap_max = 8192, 
     heap_blocks = 4100, free_headp = 4156, free_tailp = 4156\<rparr>"

definition s_rz2 :: state where
  "s_rz2 =
     \<lparr>mem = mem_of
       [(4096, 0), (4100, 9), (4104, 9), (4108, 25), (4112, 0), (4116, 0), (4124, 24),
        (4128, 24), (4132, 0), (4136, 4156), (4140, 0), (4148, 24), (4152, 25),
        (4156, 152), (4160, 4128), (4164, 0), (4304, 152), (4308, 1)],
     heap_lo = 4096, brk = 4312, heap_max = 8192, 
     heap_blocks = 4100, free_headp = 4128, free_tailp = 4156\<rparr>"

definition s_m :: state where
  "s_m =
     \<lparr>mem = mem_of
       [(4096, 0), (4100, 9), (4104, 9), (4108, 25), (4112, 0), (4116, 0), (4124, 24),
        (4128, 25), (4132, 0), (4136, 0), (4140, 0), (4148, 25), (4152, 25),
        (4156, 152), (4160, 0), (4164, 0), (4304, 152), (4308, 1)],
     heap_lo = 4096, brk = 4312, heap_max = 8192, 
     heap_blocks = 4100, free_headp = 4156, free_tailp = 4156\<rparr>"

definition s_a3 :: state where
  "s_a3 =
     \<lparr>mem = mem_of
       [(4096, 0), (4100, 9), (4104, 9), (4108, 25), (4112, 0), (4116, 0), (4128, 25),
        (4132, 25), (4136, 0), (4140, 0), (4152, 25), (4156, 25), (4160, 0), (4164, 0),
        (4176, 25), (4180, 128), (4184, 0), (4188, 0), (4304, 128), (4308, 1)],
     heap_lo = 4096, brk = 4312, heap_max = 8192, 
     heap_blocks = 4100, free_headp = 4180, free_tailp = 4180\<rparr>"

definition s_a4 :: state where
  "s_a4 =
     \<lparr>mem = mem_of
       [(4096, 0), (4100, 9), (4104, 9), (4108, 25), (4112, 0), (4116, 0), (4128, 25),
        (4132, 25), (4136, 0), (4140, 0), (4152, 25), (4156, 25), (4160, 0), (4164, 0),
        (4176, 25), (4180, 25), (4184, 0), (4188, 0), (4200, 25), (4204, 104),
        (4208, 0), (4212, 0), (4304, 104), (4308, 1)],
     heap_lo = 4096, brk = 4312, heap_max = 8192, 
     heap_blocks = 4100, free_headp = 4204, free_tailp = 4204\<rparr>"

definition s_f1 :: state where
  "s_f1 =
     \<lparr>mem = mem_of
       [(4096, 0), (4100, 9), (4104, 9), (4108, 24), (4112, 0), (4116, 4204),
        (4128, 24), (4132, 25), (4136, 0), (4140, 0), (4152, 25), (4156, 25),
        (4160, 0), (4164, 0), (4176, 25), (4180, 25), (4184, 0), (4188, 0), (4200, 25),
        (4204, 104), (4208, 4108), (4212, 0), (4304, 104), (4308, 1)],
     heap_lo = 4096, brk = 4312, heap_max = 8192, 
     heap_blocks = 4100, free_headp = 4108, free_tailp = 4204\<rparr>"

definition s_f2 :: state where
  "s_f2 =
     \<lparr>mem = mem_of
       [(4096, 0), (4100, 9), (4104, 9), (4108, 24), (4112, 4156), (4116, 4204),
        (4128, 24), (4132, 25), (4136, 0), (4140, 0), (4152, 25), (4156, 24),
        (4160, 0), (4164, 4108), (4176, 24), (4180, 25), (4184, 0), (4188, 0),
        (4200, 25), (4204, 104), (4208, 4108), (4212, 0), (4304, 104), (4308, 1)],
     heap_lo = 4096, brk = 4312, heap_max = 8192, 
     heap_blocks = 4100, free_headp = 4156, free_tailp = 4204\<rparr>"

definition s_rm :: state where
  "s_rm =
     \<lparr>mem = mem_of
       [(4096, 0), (4100, 9), (4104, 9), (4108, 24), (4112, 4156), (4116, 4204),
        (4128, 24), (4132, 25), (4136, 0), (4140, 0), (4152, 25), (4156, 24),
        (4160, 0), (4164, 4204), (4176, 24), (4180, 25), (4184, 0), (4188, 0),
        (4200, 25), (4204, 104), (4208, 4156), (4212, 0), (4304, 104), (4308, 1)],
     heap_lo = 4096, brk = 4312, heap_max = 8192, 
     heap_blocks = 4100, free_headp = 4156, free_tailp = 4204\<rparr>"

definition s_b1 :: state where
  "s_b1 =
     \<lparr>mem = mem_of
       [(4096, 0), (4100, 9), (4104, 9), (4108, 88), (4112, 0), (4116, 0), (4192, 88),
        (4196, 113), (4304, 113), (4308, 1)],
     heap_lo = 4096, brk = 4312, heap_max = 8192, 
     heap_blocks = 4100, free_headp = 4108, free_tailp = 4108\<rparr>"

definition s_b2 :: state where
  "s_b2 =
     \<lparr>mem = mem_of
       [(4096, 0), (4100, 9), (4104, 9), (4108, 88), (4112, 0), (4116, 0), (4192, 88),
        (4196, 113), (4304, 113), (4308, 505), (4312, 0), (4316, 0), (4808, 505),
        (4812, 1)],
     heap_lo = 4096, brk = 4816, heap_max = 8192, 
     heap_blocks = 4100, free_headp = 4108, free_tailp = 4108\<rparr>"

definition s_b3 :: state where
  "s_b3 =
     \<lparr>mem = mem_of
       [(4096, 0), (4100, 9), (4104, 9), (4108, 88), (4112, 0), (4116, 0), (4192, 88),
        (4196, 113), (4304, 113), (4308, 505), (4312, 0), (4316, 0), (4808, 505),
        (4812, 609), (4816, 0), (4820, 0), (5416, 609), (5420, 1)],
     heap_lo = 4096, brk = 5424, heap_max = 8192, 
     heap_blocks = 4100, free_headp = 4108, free_tailp = 4108\<rparr>"

definition s_b4 :: state where
  "s_b4 =
     \<lparr>mem = mem_of
       [(4096, 0), (4100, 9), (4104, 9), (4108, 88), (4112, 4812), (4116, 0),
        (4192, 88), (4196, 113), (4304, 113), (4308, 505), (4312, 0), (4316, 0),
        (4808, 505), (4812, 608), (4816, 0), (4820, 4108), (5416, 608), (5420, 1)],
     heap_lo = 4096, brk = 5424, heap_max = 8192, 
     heap_blocks = 4100, free_headp = 4812, free_tailp = 4108\<rparr>"

definition s_b5 :: state where
  "s_b5 =
     \<lparr>mem = mem_of
       [(4096, 0), (4100, 9), (4104, 9), (4108, 88), (4112, 4308), (4116, 0),
        (4192, 88), (4196, 113), (4304, 113), (4308, 1112), (4312, 0), (4316, 4108),
        (4808, 504), (4812, 608), (4816, 0), (4820, 0), (5416, 1112), (5420, 1)],
     heap_lo = 4096, brk = 5424, heap_max = 8192, 
     heap_blocks = 4100, free_headp = 4308, free_tailp = 4108\<rparr>"

definition s_ov :: state where
  "s_ov =
     \<lparr>mem = mem_of
       [(4096, 0), (4100, 9), (4104, 9), (4108, 88), (4112, 4316), (4116, 0),
        (4192, 88), (4196, 113), (4304, 113), (4308, 9), (4312, 9), (4316, 496),
        (4320, 0), (4324, 4108), (4808, 496), (4812, 609), (4816, 0), (4820, 0),
        (5416, 609), (5420, 1)],
     heap_lo = 4096, brk = 5424, heap_max = 8192, 
     heap_blocks = 4100, free_headp = 4316, free_tailp = 4108\<rparr>"

section \<open>Memory lemmas\<close>

lemma load32_store32_same: "load32 (store32 m a v) a = v"
  unfolding load32_def store32_def
  apply (simp)
  apply (rule bit_word_eqI)
  subgoal for n
    apply (cases "n < 8"; cases "n < 16"; cases "n < 24")
    apply (auto simp add: bit_simps)
    done
  done

lemma store32_other_byte: "4 \<le> b - a \<Longrightarrow> store32 m a v b = m b"
  unfolding store32_def
  apply (auto simp add: word_le_nat_alt)
  done

lemma load32_store32_other: "4 \<le> b - a \<Longrightarrow> 4 \<le> a - b \<Longrightarrow> load32 (store32 m a v) b = load32 m b"
  unfolding load32_def store32_def
  apply (auto simp add: word_le_nat_alt)
  done

lemma store32_store32_same: "store32 (store32 m a v) a w = store32 m a w"
  unfolding store32_def by simp

lemma store32_store32_swap:
  assumes "4 \<le> b - a" "4 \<le> a - b"
  shows "store32 (store32 m b w) a v = store32 (store32 m a v) b w"
proof (rule ext)
  fix x
  have "a - b \<noteq> 0 \<and> a - b \<noteq> 1 \<and> a - b \<noteq> 2 \<and> a - b \<noteq> 3 \<and>
        b - a \<noteq> 0 \<and> b - a \<noteq> 1 \<and> b - a \<noteq> 2 \<and> b - a \<noteq> 3"
    using assms by (auto simp add: word_le_nat_alt)
  then have ne: "a \<noteq> b" "a \<noteq> b + 1" "a \<noteq> b + 2" "a \<noteq> b + 3"
    "a + 1 \<noteq> b" "a + 1 \<noteq> b + 2" "a + 1 \<noteq> b + 3"
    "a + 2 \<noteq> b" "a + 2 \<noteq> b + 1" "a + 2 \<noteq> b + 3"
    "a + 3 \<noteq> b" "a + 3 \<noteq> b + 1" "a + 3 \<noteq> b + 2"
    by auto
  show "store32 (store32 m b w) a v x = store32 (store32 m a v) b w x"
    using ne unfolding store32_def by simp
qed

lemma aligned4_apart:
  assumes "aligned4 a" "aligned4 b" "a \<noteq> b"
  shows "4 \<le> a - b"
proof -
  have ba: "unat a < 4294967296" "unat b < 4294967296"
    using unsigned_less [of a, where 'a = nat] unsigned_less [of b, where 'a = nat] by simp_all
  have ne: "unat a \<noteq> unat b"
    using assms(3) by (simp add: word_unat_eq_iff)
  have d: "4 dvd unat a" "4 dvd unat b"
    using assms(1,2) by (simp_all add: aligned4_def dvd_eq_mod_eq_0)
  show ?thesis
  proof (cases "unat b \<le> unat a")
    case True
    then have "unat (a - b) = unat a - unat b"
      by (simp add: unat_sub_if')
    moreover have "4 \<le> unat a - unat b"
      using True ne d by presburger
    ultimately show ?thesis by (simp add: word_le_nat_alt)
  next
    case False
    then have "unat (a - b) = unat a + 4294967296 - unat b"
      by (simp add: unat_sub_if')
    moreover have "4 \<le> unat a + 4294967296 - unat b"
      using False ba d by presburger
    ultimately show ?thesis by (simp add: word_le_nat_alt)
  qed
qed

lemma store32_mem_of:
  "aligned4 a \<Longrightarrow> list_all (\<lambda>p. aligned4 (fst p)) xs \<Longrightarrow>
   store32 (mem_of xs) a v = mem_of (ins a v xs)"
proof (induction xs)
  case Nil
  then show ?case by simp
next
  case (Cons p xs)
  obtain k w where p: "p = (k, w)" by (cases p)
  show ?case
  proof (cases "a = k")
    case True
    then show ?thesis by (simp add: p store32_store32_same)
  next
    case False
    with Cons.prems p have d: "4 \<le> a - k" "4 \<le> k - a"
      by (auto intro: aligned4_apart)
    show ?thesis
    proof (cases "a < k")
      case True
      with False show ?thesis by (simp add: p)
    next
      case nlt: False
      have "store32 (mem_of (p # xs)) a v = store32 (store32 (mem_of xs) a v) k w"
        using d by (simp add: p store32_store32_swap)
      also have "\<dots> = store32 (mem_of (ins a v xs)) k w"
        using Cons by simp
      finally show ?thesis using False nlt by (simp add: p)
    qed
  qed
qed

lemma load32_mem_of:
  "aligned4 a \<Longrightarrow> list_all (\<lambda>p. aligned4 (fst p)) xs \<Longrightarrow>
   load32 (mem_of xs) a = lookup32 xs a"
proof (induction xs)
  case Nil
  then show ?case by (simp add: load32_def)
next
  case (Cons p xs)
  obtain k w where p: "p = (k, w)" by (cases p)
  show ?case
  proof (cases "a = k")
    case True
    then show ?thesis by (simp add: p load32_store32_same)
  next
    case False
    with Cons.prems p have d: "4 \<le> a - k" "4 \<le> k - a"
      by (auto intro: aligned4_apart)
    then show ?thesis using Cons False by (simp add: p load32_store32_other)
  qed
qed

lemma load32_zero: "load32 (\<lambda>_. 0) a = 0"
  by (simp add: load32_def)



declare mem_of.simps [simp del]

lemmas eval_defs = read_int_def write_int_def in_region_def mem_sbrk_def get_size_def
  get_allocated_def set_header_def set_footer_def get_payload_addr_def get_prev_def get_next_def
  get_prev_free_def get_next_free_def set_prev_free_def set_next_free_def
  free_list_prepend_def free_list_append_def free_list_remove_def free_coalesce_def
  extend_heap_def mm_init_def mm_free_def NULL_def place_def required_block_size_def
  find_fit_def find_fit_from_head.simps find_fit_from_tail.simps mm_malloc_def mm_malloc_loop.simps
  mm_realloc_def memcpy_def
  store32_mem_of load32_mem_of aligned4_def word_le_nat_alt word_sless_alt word_sle_eq
  word_less_nat_alt

section \<open>Runs of the allocator on concrete heaps\<close>

lemma run_init: "mm_init s0 = Some (0, s_init)"
  by (simp add: s0_def s_init_def eval_defs)

lemma run_a1: "mm_malloc s_init 16 = Some (Some (4112, s_a1))"
  by (simp add: s_init_def s_a1_def eval_defs)

lemma run_free: "mm_free s_a1 4112 = Some s_free"
  by (simp add: s_a1_def s_free_def eval_defs)

lemma run_rz: "mm_realloc s_a1 4112 0 = Some (Some (0, s_rz))"
  by (simp add: s_a1_def s_rz_def eval_defs)

lemma run_a2: "mm_malloc s_a1 16 = Some (Some (4136, s_a2))"
  by (simp add: s_a1_def s_a2_def eval_defs)

lemma run_w: "write_int s_a2 4124 24 = Some s_w"
  by (simp add: s_a2_def s_w_def eval_defs)

lemma run_rz2: "mm_realloc s_w 4136 0 = Some (Some (0, s_rz2))"
  by (simp add: s_w_def s_rz2_def eval_defs)

lemma run_m: "mm_malloc s_rz2 16 = Some (Some (4132, s_m))"
  by (simp add: s_rz2_def s_m_def eval_defs)

lemma run_a3: "mm_malloc s_a2 16 = Some (Some (4160, s_a3))"
  by (simp add: s_a2_def s_a3_def eval_defs)

lemma run_a4: "mm_malloc s_a3 16 = Some (Some (4184, s_a4))"
  by (simp add: s_a3_def s_a4_def eval_defs)

lemma run_f1: "mm_free s_a4 4112 = Some s_f1"
  by (simp add: s_a4_def s_f1_def eval_defs)

lemma run_f2: "mm_free s_f1 4160 = Some s_f2"
  by (simp add: s_f1_def s_f2_def eval_defs)

lemma run_rm: "free_list_remove s_f2 4108 = Some s_rm"
  by (simp add: s_f2_def s_rm_def eval_defs)

lemma run_b1: "mm_malloc s_init 100 = Some (Some (4200, s_b1))"
  by (simp add: s_init_def s_b1_def eval_defs)

lemma run_b2: "mm_malloc s_b1 496 = Some (Some (4312, s_b2))"
  by (simp add: s_b1_def s_b2_def eval_defs)

lemma run_b3: "mm_malloc s_b2 600 = Some (Some (4816, s_b3))"
  by (simp add: s_b2_def s_b3_def eval_defs)

lemma run_b4: "mm_free s_b3 4816 = Some s_b4"
  by (simp add: s_b3_def s_b4_def eval_defs)

lemma run_b5: "free_coalesce s_b4 4308 = Some (4308, s_b5)"
  by (simp add: s_b4_def s_b5_def eval_defs)

lemma run_ov: "mm_realloc s_b3 4312 0xFFFFFFF9 = Some (Some (4312, s_ov))"
  by (simp add: s_b3_def s_ov_def eval_defs)

section \<open>Pointers as numbers\<close>

lemma ptr_unat: "ptr (unat w) = w"
  by (simp add: ptr_def)

lemma unat_ptr: "n < 4294967296 \<Longrightarrow> unat (ptr n) = n"
  by (simp add: ptr_def unat_of_nat take_bit_nat_eq_self)

lemma ptr_add: "ptr m + ptr n = ptr (m + n)"
  by (simp add: ptr_def)

lemma ptr_add_numeral: "ptr m + numeral k = ptr (m + numeral k)"
  by (simp add: ptr_def)

lemma ptr_numeral_add: "numeral k + ptr m = ptr (m + numeral k)"
  by (simp add: ptr_def)

lemma ptr_sub: "n \<le> m \<Longrightarrow> ptr m - ptr n = ptr (m - n)"
  by (simp add: ptr_def)

lemma ptr_sub_numeral: "numeral k \<le> m \<Longrightarrow> ptr m - numeral k = ptr (m - numeral k)"
  by (simp add: ptr_def)

lemma ptr_eq_iff: "m < 4294967296 \<Longrightarrow> n < 4294967296 \<Longrightarrow> ptr m = ptr n \<longleftrightarrow> m = n"
  by (metis unat_ptr)

lemma ptr_apart: 
  assumes "i + 4 \<le> k" "k + 4 \<le> 4294967296"
  shows "4 \<le> ptr k - ptr i" "4 \<le> ptr i - ptr k"
proof -
  have ui: "unat (ptr i) = i" and uk: "unat (ptr k) = k"
    using assms by (simp_all add: unat_ptr)
  show "4 \<le> ptr k - ptr i"
    using assms by (simp add: word_le_nat_alt unat_sub_if' ui uk)
  show "4 \<le> ptr i - ptr k"
    using assms by (simp add: word_le_nat_alt unat_sub_if' ui uk)
qed

lemma load32_store32_eq: "i = k \<Longrightarrow> load32 (store32 m (ptr i) v) (ptr k) = v"
  by (simp add: load32_store32_same)

lemma load32_store32_lt:
  "i + 4 \<le> k \<Longrightarrow> k + 4 \<le> 4294967296 \<Longrightarrow> load32 (store32 m (ptr i) v) (ptr k) = load32 m (ptr k)"
  using ptr_apart [of i k] by (simp add: load32_store32_other)

lemma load32_store32_gt:
  "k + 4 \<le> i \<Longrightarrow> i + 4 \<le> 4294967296 \<Longrightarrow> load32 (store32 m (ptr i) v) (ptr k) = load32 m (ptr k)"
  using ptr_apart [of k i] by (simp add: load32_store32_other)

lemma in_region_ptr: "n < 4294967296 \<Longrightarrow> in_region s (ptr n) k \<longleftrightarrow> heap_lo s \<le> n \<and> n + k \<le> brk s"
  by (simp add: in_region_def unat_ptr)

lemmas ptr_simps = ptr_add ptr_add_numeral ptr_numeral_add ptr_sub ptr_sub_numeral
  load32_store32_eq load32_store32_lt load32_store32_gt in_region_ptr

section \<open>Initialisation never faults\<close>

lemmas run_defs = read_int_def write_int_def get_size_def
  get_allocated_def set_header_def set_footer_def get_payload_addr_def get_prev_def get_next_def
  get_prev_free_def get_next_free_def set_prev_free_def set_next_free_def

lemma mm_init_total:
  assumes lo: "heap_lo s \<le> brk s" and mx: "heap_max s < 2 ^ 32"
  shows "\<exists>s'. mm_init s = Some (if brk s + 16 \<le> heap_max s then 0 else - 1, s')"
proof (cases "brk s + 16 \<le> heap_max s")
  case False
  then show ?thesis
    by (simp add: mm_init_def mem_sbrk_def)
next
  case True
  define b where "b = brk s"
  have m1: "unat (- 1 :: addr) = 4294967295"
    by (simp add: unsigned_minus_1_eq_mask mask_eq_exp_minus_1)
  have n1: "ptr n \<noteq> - 1" if "n < 4294967295" for n
    using that m1 unat_ptr [of n] by auto
  have sb: "mem_sbrk (s\<lparr>free_headp := NULL, free_tailp := NULL\<rparr>) 16 =
    (ptr b, s\<lparr>free_headp := NULL, free_tailp := NULL, brk := b + 16\<rparr>)"
    using True by (simp add: mem_sbrk_def b_def ptr_def word_sless_alt)
  define s4 where "s4 = s\<lparr>free_headp := NULL, free_tailp := NULL, brk := b + 16,
                   mem := store32 (store32 (store32 (store32 (mem s) (ptr b) 0) (ptr (b + 4)) 9)
                            (ptr (b + 8)) 9) (ptr (b + 12)) 1,
                   heap_blocks := ptr (b + 4)\<rparr>"
  have ex: "\<exists>r. extend_heap s4 200 = Some r"
  proof (cases "heap_max s < b + 216")
    case True
    then show ?thesis
      by (simp add: extend_heap_def mem_sbrk_def s4_def b_def)
  next
    case False
    have sb2: "mem_sbrk s4 200 = (ptr (b + 16), s4\<lparr>brk := b + 216\<rparr>)"
      using False by (simp add: mem_sbrk_def s4_def b_def ptr_def word_sless_alt)
    show ?thesis
      using False lo mx n1 [of "b + 16"]
      apply (simp add: extend_heap_def sb2)
      apply (simp add: s4_def run_defs ptr_simps b_def [symmetric])
      apply (simp add: free_coalesce_def free_list_prepend_def NULL_def word_sless_alt
          run_defs ptr_simps b_def [symmetric])
      done
  qed
  show ?thesis
    using True lo mx n1 [of b] ex
    apply (simp add: mm_init_def sb)
    apply (simp add: run_defs ptr_simps b_def [symmetric])
    apply (auto simp add: s4_def)
    done
qed

section \<open>Fit search on a well-formed free list\<close>

lemma get_size_size_at: "get_size s x \<noteq> None \<Longrightarrow> get_size s x = Some (size_at s x)"
  by (auto simp add: get_size_def read_int_def size_at_def split: if_splits)

lemma not_sle_iff: "\<not> a \<le>s b \<longleftrightarrow> b <s a"
  by (auto simp add: word_sle_eq word_sless_alt)

lemma find_fit_from_head_dll:
  "dll s p xs NULL \<Longrightarrow>
   find_fit_from_head s req (case xs of [] \<Rightarrow> NULL | x # _ \<Rightarrow> x) =
     Some (Some (scan_fit (size_at s) req xs))"
proof (induction xs arbitrary: p)
  case Nil
  then show ?case
    by (simp add: find_fit_from_head.simps)
next
  case (Cons x xs)
  from Cons.prems have x: "x \<noteq> NULL" "get_size s x = Some (size_at s x)"
    "get_next_free s x = Some (case xs of [] \<Rightarrow> NULL | y # _ \<Rightarrow> y)" "dll s x xs NULL"
    by (simp_all add: get_size_size_at)
  show ?case
  proof (cases "req \<le>s size_at s x")
    case True
    show ?thesis
    proof (cases xs)
      case Nil
      with True x show ?thesis
        by (simp add: find_fit_from_head.simps [of s req x])
    next
      case (Cons y ys)
      with x(4) have y: "y \<noteq> NULL" "get_size s y = Some (size_at s y)"
        by (simp_all add: get_size_size_at)
      with True x Cons show ?thesis
        by (simp add: find_fit_from_head.simps [of s req x])
    qed
  next
    case False
    then have "size_at s x <s req" by (simp add: not_sle_iff)
    with False x Cons.IH [OF x(4)] show ?thesis
      by (simp add: find_fit_from_head.simps [of s req x])
  qed
qed

lemma dll_prev_chain: "dll s p xs q \<Longrightarrow> prev_chain s p xs"
  by (induction xs arbitrary: p) auto

lemma prev_chain_snoc:
  "prev_chain s p (xs @ [x]) \<longleftrightarrow>
   prev_chain s p xs \<and> x \<noteq> NULL \<and> get_size s x \<noteq> None \<and>
   get_prev_free s x = Some (if xs = [] then p else last xs)"
  by (induction xs arbitrary: p) auto

lemma prev_chain_not_NULL: "prev_chain s p xs \<Longrightarrow> NULL \<notin> set xs"
  by (induction xs arbitrary: p) auto

lemma find_fit_from_tail_chain:
  "prev_chain s NULL xs \<Longrightarrow>
   find_fit_from_tail s req (if xs = [] then NULL else last xs) =
     Some (Some (scan_fit (size_at s) req (rev xs)))"
proof (induction xs rule: rev_induct)
  case Nil
  then show ?case
    by (simp add: find_fit_from_tail.simps)
next
  case (snoc x xs)
  from snoc.prems have x: "x \<noteq> NULL" "get_size s x = Some (size_at s x)"
    "get_prev_free s x = Some (if xs = [] then NULL else last xs)" "prev_chain s NULL xs"
    by (simp_all add: prev_chain_snoc get_size_size_at)
  show ?case
  proof (cases "req \<le>s size_at s x")
    case True
    show ?thesis
    proof (cases "xs = []")
      case True
      with \<open>req \<le>s size_at s x\<close> x show ?thesis
        by (simp add: find_fit_from_tail.simps [of s req x])
    next
      case False
      then obtain ys y where xs: "xs = ys @ [y]"
        by (metis rev_exhaust)
      with x(4) have y: "y \<noteq> NULL" "get_size s y = Some (size_at s y)"
        by (simp_all add: prev_chain_snoc get_size_size_at)
      with True x xs show ?thesis
        by (simp add: find_fit_from_tail.simps [of s req x])
    qed
  next
    case False
    then have "size_at s x <s req" by (simp add: not_sle_iff)
    with False x snoc.IH [OF x(4)] show ?thesis
      by (simp add: find_fit_from_tail.simps [of s req x])
  qed
qed

lemma scan_fit_NULL_iff:
  "NULL \<notin> set xs \<Longrightarrow> scan_fit f req xs = NULL \<longleftrightarrow> (\<forall>x\<in>set xs. f x <s req)"
proof (induction xs)
  case Nil
  then show ?case by simp
next
  case (Cons x xs)
  then show ?case
    by (cases xs) (auto simp add: not_sle_iff)
qed

lemma scan_fit_member:
  "scan_fit f req xs \<noteq> NULL \<Longrightarrow> scan_fit f req xs \<in> set xs \<and> req \<le>s f (scan_fit f req xs)"
proof (induction xs)
  case Nil
  then show ?case by simp
next
  case (Cons x xs)
  then show ?case
    by (cases xs) (auto split: if_splits)
qed

lemma mult8_and7: "(w * 8) AND 7 = (0 :: 32 word)"
proof -
  have a: "w * 8 = push_bit 3 w" by (simp add: push_bit_eq_mult)
  have b: "(7 :: 32 word) = mask 3" by (simp add: mask_eq_exp_minus_1)
  show ?thesis
    unfolding a b by (rule bit_word_eqI) (auto simp add: bit_simps)
qed

lemma required_block_size_not_270: "required_block_size n \<noteq> 270"
proof
  assume a: "required_block_size n = 270"
  have "required_block_size n AND 7 = 0"
    unfolding required_block_size_def by (rule mult8_and7)
  with a show False by simp
qed


section \<open>Claims\<close>

lemma mm_malloc_loop_Some_not_stuck:
  assumes "mm_malloc_loop s rs = Some y"
  shows "\<not> (mem_sbrk s rs = (- 1, s) \<and> find_fit s rs = Some (Some NULL))"
proof (rule mm_malloc_loop.raw_induct
    [where P = "\<lambda>s rs y. \<not> (mem_sbrk s rs = (- 1, s) \<and> find_fit s rs = Some (Some NULL))",
     OF _ assms])
  fix loop :: "state \<Rightarrow> cint \<Rightarrow> (addr \<times> state) option option"
  fix s rs y
  assume ih: "\<And>s rs y. loop s rs = Some y \<Longrightarrow>
    \<not> (mem_sbrk s rs = (- 1, s) \<and> find_fit s rs = Some (Some NULL))"
  assume body: "(case extend_heap s rs of
        None \<Rightarrow> Some None
      | Some r \<Rightarrow>
          (case find_fit (snd r) rs of
             None \<Rightarrow> None
           | Some None \<Rightarrow> Some None
           | Some (Some f) \<Rightarrow>
               if f \<noteq> NULL then
                 (case find_fit (snd r) rs of
                    None \<Rightarrow> None
                  | Some None \<Rightarrow> Some None
                  | Some (Some f1) \<Rightarrow>
                      Some (place (snd r) f1 rs \<bind>
                            (\<lambda>b. Some (get_payload_addr (fst b), snd b))))
               else loop (snd r) rs)) = Some y"
  show "\<not> (mem_sbrk s rs = (- 1, s) \<and> find_fit s rs = Some (Some NULL))"
  proof
    assume st: "mem_sbrk s rs = (- 1, s) \<and> find_fit s rs = Some (Some NULL)"
    then have "extend_heap s rs = Some (NULL, s)"
      by (simp add: extend_heap_def)
    with st body have "loop s rs = Some y"
      by simp
    with ih st show False by blast
  qed
qed

lemma mm_malloc_loop_stuck:
  assumes "mem_sbrk s rs = (- 1, s)" and "find_fit s rs = Some (Some NULL)"
  shows "mm_malloc_loop s rs = None"
  using assms mm_malloc_loop_Some_not_stuck [of s rs] by (cases "mm_malloc_loop s rs") auto

text \<open>
  C1.  The claim: for every request size \<open>n > 0\<close>, \<open>allocate(n)\<close> terminates, and when the
  provider is exhausted it returns null after one failed extend attempt.
  The code does not: when no free block fits and \<^verbatim>\<open>mem_sbrk\<close> fails, \<^verbatim>\<open>extend_heap\<close>
  returns \<open>NULL\<close> leaving the heap as it was, its result is dropped, the search fails
  again, and the \<^verbatim>\<open>while (1)\<close> loop goes round forever: \<^verbatim>\<open>mm_malloc\<close> never returns
  (the value \<open>None\<close> of the loop).
\<close>

theorem mm_malloc_never_returns_when_exhausted:
  assumes "sz \<noteq> 0"
    and "mem_sbrk s (required_block_size sz) = (- 1, s)"
    and "find_fit s (required_block_size sz) = Some (Some NULL)"
  shows "mm_malloc s sz = None"
  using assms by (simp add: mm_malloc_def mm_malloc_loop_stuck)

theorem mm_malloc_never_returns_when_exhausted_witness:
  "mm_init s0 = Some (0, s_init) \<and> (5000 :: 32 word) \<noteq> 0 \<and>
   mem_sbrk s_init (required_block_size 5000) = (- 1, s_init) \<and>
   find_fit s_init (required_block_size 5000) = Some (Some NULL) \<and>
   mm_malloc s_init 5000 = None"
proof -
  have a: "(5000 :: 32 word) \<noteq> 0" by simp
  have b: "mem_sbrk s_init (required_block_size 5000) = (- 1, s_init)"
    by (simp add: s_init_def eval_defs)
  have c: "find_fit s_init (required_block_size 5000) = Some (Some NULL)"
    by (simp add: s_init_def eval_defs)
  show ?thesis
    using mm_malloc_never_returns_when_exhausted [OF a b c] a b c run_init by simp
qed

text \<open>
  C2.  The claim: \<open>resize(p, 0)\<close> has the same effect as \<open>free(p)\<close> and returns none.
  The code passes the header address \<open>ptr - 4\<close> to \<^verbatim>\<open>mm_free\<close>, which subtracts 4 again,
  so \<^verbatim>\<open>free_coalesce\<close> runs on the word before the header (the footer of the previous
  block).  On the heap reached by \<^verbatim>\<open>mm_init\<close> and \<open>p = mm_malloc(16)\<close>: \<open>free(p)\<close> puts the
  block at 4108 on the free list, \<open>resize(p, 0)\<close> returns \<open>NULL\<close> with an empty free list
  and a different memory.
\<close>

theorem mm_realloc_zero_is_not_mm_free:
  "mm_init s0 = Some (0, s_init) \<and>
   mm_malloc s_init 16 = Some (Some (4112, s_a1)) \<and>
   mm_free s_a1 4112 = Some s_free \<and>
   mm_realloc s_a1 4112 0 = Some (Some (NULL, s_rz)) \<and>
   free_headp s_free = 4108 \<and> free_headp s_rz = NULL \<and>
   get_size s_free 4108 = Some 200 \<and> get_size s_rz 4108 = Some 8 \<and>
   s_rz \<noteq> s_free"
proof -
  have "free_headp s_free = 4108" "free_headp s_rz = NULL"
    by (simp_all add: s_free_def s_rz_def NULL_def)
  moreover from this have "s_rz \<noteq> s_free"
    by (auto simp add: NULL_def)
  moreover have "get_size s_free 4108 = Some 200" "get_size s_rz 4108 = Some 8"
    by (simp_all add: s_free_def s_rz_def eval_defs)
  ultimately show ?thesis
    using run_init run_a1 run_free run_rz by (simp add: NULL_def)
qed

text \<open>
  C3.  The claim: \<open>resize(null, n)\<close> behaves exactly as \<open>allocate(n)\<close>, without reading
  block metadata derived from the null pointer.
  The code computes \<open>hptr = ptr - 4\<close> and reads \<^verbatim>\<open>get_size(hptr)\<close> before any test, and
  its test is \<^verbatim>\<open>hptr == NULL\<close>, not \<^verbatim>\<open>ptr == NULL\<close>.  With \<open>ptr = NULL\<close> the first read is
  at address \<open>0xFFFFFFFC\<close>, outside every region the provider can own: a fault.
\<close>

theorem mm_realloc_null_faults:
  assumes "brk s < 2 ^ 32"
  shows "mm_realloc s NULL sz = Some None"
proof -
  have "unat (NULL - 4 :: addr) = 4294967292"
    by (simp add: NULL_def)
  then have "\<not> in_region s (NULL - 4) 4"
    using assms by (simp add: in_region_def)
  then have "get_size s (NULL - 4) = None"
    by (simp add: get_size_def read_int_def)
  then show ?thesis
    by (simp add: mm_realloc_def)
qed

theorem mm_realloc_null_faults_witness:
  "brk s_init < 2 ^ 32 \<and> mm_realloc s_init NULL 16 = Some None \<and>
   mm_malloc s_init 16 = Some (Some (4112, s_a1))"
proof -
  have a: "brk s_init < 2 ^ 32" by (simp add: s_init_def)
  show ?thesis
    using mm_realloc_null_faults [OF a, of 16] a run_a1 by simp
qed

text \<open>
  C5.  The claim: after \<open>remove(bp)\<close>, the link fields of \<open>bp\<close> are both null, wherever
  \<open>bp\<close> sits in the list.
  The branches for the sole element, the head and the tail null them; the branch for an
  interior node only relinks the neighbours.  On the heap reached by four allocations of
  16 bytes and freeing the first and the third, the free list is 4156, 4108, 4204;
  removing the interior node 4108 leaves its \<open>prev_free = 4156\<close> and \<open>next_free = 4204\<close>.
\<close>

theorem free_list_remove_interior_keeps_links:
  "free_list s_f2 [4156, 4108, 4204] \<and>
   free_list_remove s_f2 4108 = Some s_rm \<and>
   free_list s_rm [4156, 4204] \<and>
   get_prev_free s_rm 4108 = Some 4156 \<and> get_next_free s_rm 4108 = Some 4204 \<and>
   (4156 :: addr) \<noteq> NULL \<and> (4204 :: addr) \<noteq> NULL"
proof -
  have "free_list s_f2 [4156, 4108, 4204]"
    by (simp add: free_list_def s_f2_def eval_defs)
  moreover have "free_list s_rm [4156, 4204]"
    by (simp add: free_list_def s_rm_def eval_defs)
  moreover have "get_prev_free s_rm 4108 = Some 4156" "get_next_free s_rm 4108 = Some 4204"
    by (simp_all add: s_rm_def eval_defs)
  ultimately show ?thesis
    using run_rm by (simp add: NULL_def)
qed

text \<open>
  C7.  The claim: after every call, header and footer agree for every block reachable by
  heap traversal from the prologue.
  After \<open>resize(p, 0)\<close> they do not (the defect of C2: \<^verbatim>\<open>free_coalesce\<close> runs on
  \<open>ptr - 8\<close>).  On the heap reached by \<^verbatim>\<open>mm_init\<close> and \<open>p = mm_malloc(16)\<close>, the call
  \<open>mm_realloc(p, 0)\<close> leaves at 4108, the block after the prologue, a header of size 8
  whose footer word at 4112 decodes to size 0.
\<close>

theorem header_footer_disagree_after_mm_realloc_zero:
  "mm_init s0 = Some (0, s_init) \<and>
   mm_malloc s_init 16 = Some (Some (4112, s_a1)) \<and>
   header_footer_agree s_a1 4108 \<and>
   mm_realloc s_a1 4112 0 = Some (Some (NULL, s_rz)) \<and>
   reachable s_rz 4108 \<and> \<not> header_footer_agree s_rz 4108 \<and>
   get_size s_rz 4108 = Some 8 \<and> get_size s_rz (4108 + 8 - 4) = Some 0"
proof -
  have "get_next s_rz (heap_blocks s_rz) = Some 4108"
    by (simp add: s_rz_def eval_defs)
  then have "reachable s_rz 4108"
    using reachable.start [of s_rz] reachable.step by blast
  moreover have "\<not> header_footer_agree s_rz 4108" "header_footer_agree s_a1 4108"
    by (simp_all add: header_footer_agree_def s_rz_def s_a1_def eval_defs)
  moreover have "get_size s_rz 4108 = Some 8" "get_size s_rz (4108 + 8 - 4) = Some 0"
    by (simp_all add: s_rz_def eval_defs)
  ultimately show ?thesis
    using run_init run_a1 run_rz by (simp add: NULL_def)
qed

text \<open>
  C10.  The claim: every non-null payload pointer returned by allocate or resize is a
  multiple of 8.
  After \<open>resize(p, 0)\<close> it need not be (the defect of C2).  With an 8-byte aligned region:
  \<open>q = mm_malloc(16)\<close> is 4112 and \<open>p = mm_malloc(16)\<close> is 4136; the client stores 24 in the
  last word of its payload \<open>q\<close>; \<open>mm_realloc(p, 0)\<close> then runs \<^verbatim>\<open>free_coalesce\<close> on 4128,
  the footer of the block of \<open>q\<close>, and puts 4128 on the free list; the next
  \<open>mm_malloc(16)\<close> returns 4132, which is 4 modulo 8.
\<close>

theorem mm_malloc_unaligned_after_mm_realloc_zero:
  "mm_init s0 = Some (0, s_init) \<and>
   mm_malloc s_init 16 = Some (Some (4112, s_a1)) \<and>
   mm_malloc s_a1 16 = Some (Some (4136, s_a2)) \<and>
   write_int s_a2 (4112 + 12) 24 = Some s_w \<and>
   mm_realloc s_w 4136 0 = Some (Some (NULL, s_rz2)) \<and>
   mm_malloc s_rz2 16 = Some (Some (4132, s_m)) \<and>
   unat (4132 :: addr) mod 8 = 4"
  using run_init run_a1 run_a2 run_w run_rz2 run_m by (simp add: NULL_def)


text \<open>
  C9.  \<^verbatim>\<open>mm_init\<close> returns \<open>-1\<close> exactly when the provider cannot supply the first 16
  bytes, and \<open>0\<close> otherwise, whether or not the following \<^verbatim>\<open>extend_heap(200)\<close> succeeds;
  it never faults.  The provider is any one whose region lies in the 32-bit address
  space.
\<close>

theorem mm_init_fails_iff_first_sbrk_fails:
  assumes lo: "heap_lo s \<le> brk s" and mx: "heap_max s < 2 ^ 32"
  shows "\<exists>r s'. mm_init s = Some (r, s') \<and>
           (r = - 1 \<longleftrightarrow> heap_max s < brk s + 16) \<and>
           (r = - 1 \<longleftrightarrow> fst (mem_sbrk s 16) = - 1) \<and>
           (r = 0 \<longleftrightarrow> brk s + 16 \<le> heap_max s)"
proof -
  have m1: "unat (- 1 :: addr) = 4294967295"
    by (simp add: unsigned_minus_1_eq_mask mask_eq_exp_minus_1)
  have "ptr (brk s) \<noteq> - 1" if "brk s + 16 \<le> heap_max s"
    using that mx m1 unat_ptr [of "brk s"] by auto
  then have sb: "fst (mem_sbrk s 16) = - 1 \<longleftrightarrow> heap_max s < brk s + 16"
    by (auto simp add: mem_sbrk_def word_sless_alt ptr_def)
  obtain s' where "mm_init s = Some (if brk s + 16 \<le> heap_max s then 0 else - 1, s')"
    using mm_init_total [OF lo mx] by blast
  with sb show ?thesis
    by (cases "brk s + 16 \<le> heap_max s") auto
qed

text \<open>
  The witness is a provider with room for the first 16 bytes but not for the extension
  by 200: \<^verbatim>\<open>mm_init\<close> still returns 0.
\<close>

theorem mm_init_fails_iff_first_sbrk_fails_witness:
  "heap_lo (s0\<lparr>heap_max := 4196\<rparr>) \<le> brk (s0\<lparr>heap_max := 4196\<rparr>) \<and>
   heap_max (s0\<lparr>heap_max := 4196\<rparr>) < 2 ^ 32 \<and>
   fst (mem_sbrk (s0\<lparr>heap_max := 4196, brk := 4112\<rparr>) 200) = - 1 \<and>
   (\<exists>s'. mm_init (s0\<lparr>heap_max := 4196\<rparr>) = Some (0, s'))"
proof -
  have a: "heap_lo (s0\<lparr>heap_max := 4196\<rparr>) \<le> brk (s0\<lparr>heap_max := 4196\<rparr>)"
    by (simp add: s0_def)
  have b: "heap_max (s0\<lparr>heap_max := 4196\<rparr>) < 2 ^ 32"
    by (simp add: s0_def)
  have c: "fst (mem_sbrk (s0\<lparr>heap_max := 4196, brk := 4112\<rparr>) 200) = - 1"
    by (simp add: s0_def mem_sbrk_def)
  show ?thesis
    using mm_init_fails_iff_first_sbrk_fails [OF a b] a b c
    by (auto simp add: s0_def)
qed


text \<open>
  C6.  On a well-formed free list \<open>xs\<close> (head first) and for a required block size
  \<open>required_block_size n\<close>, \<^verbatim>\<open>find_fit\<close> returns, without fault, what the specified scan
  returns: from the tail when the required size is at least 270, from the head
  otherwise.  It returns \<open>NULL\<close> exactly when every block of the list is smaller than the
  required size, and any block it returns is on the list and large enough.
\<close>

theorem find_fit_correct:
  assumes "free_list s xs"
  shows "\<exists>r. find_fit s (required_block_size n) = Some (Some r) \<and>
           r = find_fit_spec s (required_block_size n) xs \<and>
           (r = NULL \<longleftrightarrow> (\<forall>x\<in>set xs. size_at s x <s required_block_size n)) \<and>
           (r \<noteq> NULL \<longrightarrow> r \<in> set xs \<and> required_block_size n \<le>s size_at s r)"
proof -
  define rs where "rs = required_block_size n"
  from assms have d: "dll s NULL xs NULL"
    and h: "free_headp s = (case xs of [] \<Rightarrow> NULL | x # _ \<Rightarrow> x)"
    and t: "free_tailp s = (if xs = [] then NULL else last xs)"
    by (simp_all add: free_list_def)
  have nn: "NULL \<notin> set xs" "NULL \<notin> set (rev xs)"
    using d by (auto dest: dll_prev_chain prev_chain_not_NULL)
  have ne: "rs \<noteq> 270"
    by (simp add: rs_def required_block_size_not_270)
  have run: "find_fit s rs = Some (Some (find_fit_spec s rs xs))"
  proof (cases "270 <s rs")
    case True
    then have "270 \<le>s rs" by (simp add: word_sless_alt word_sle_eq)
    with True t show ?thesis
      using find_fit_from_tail_chain [OF dll_prev_chain [OF d], of rs]
      by (simp add: find_fit_def find_fit_spec_def)
  next
    case False
    have "sint rs \<noteq> sint (270 :: cint)"
      using ne signed_word_eqI [of rs 270] by blast
    with False have "\<not> 270 \<le>s rs" "rs \<le>s 270"
      by (simp_all add: word_sless_alt word_sle_eq)
    with False h show ?thesis
      using find_fit_from_head_dll [OF d, of rs]
      by (simp add: find_fit_def find_fit_spec_def)
  qed
  have "find_fit_spec s rs xs = NULL \<longleftrightarrow> (\<forall>x\<in>set xs. size_at s x <s rs)"
    using nn by (simp add: find_fit_spec_def scan_fit_NULL_iff)
  moreover have "find_fit_spec s rs xs \<noteq> NULL \<longrightarrow>
      find_fit_spec s rs xs \<in> set xs \<and> rs \<le>s size_at s (find_fit_spec s rs xs)"
    using scan_fit_member [of "size_at s" rs xs] scan_fit_member [of "size_at s" rs "rev xs"]
    by (simp add: find_fit_spec_def)
  ultimately show ?thesis
    using run unfolding rs_def by blast
qed

theorem find_fit_correct_witness:
  "free_list s_f2 [4156, 4108, 4204] \<and>
   find_fit s_f2 (required_block_size 16) = Some (Some 4156) \<and>
   find_fit_spec s_f2 (required_block_size 16) [4156, 4108, 4204] = 4156 \<and>
   find_fit s_f2 (required_block_size 300) = Some (Some NULL) \<and>
   find_fit_spec s_f2 (required_block_size 300) [4156, 4108, 4204] = NULL"
proof -
  have fl: "free_list s_f2 [4156, 4108, 4204]"
    by (simp add: free_list_def s_f2_def eval_defs)
  have a: "find_fit_spec s_f2 (required_block_size 16) [4156, 4108, 4204] = 4156"
    by (simp add: find_fit_spec_def size_at_def s_f2_def eval_defs)
  have b: "find_fit_spec s_f2 (required_block_size 300) [4156, 4108, 4204] = NULL"
    by (simp add: find_fit_spec_def size_at_def s_f2_def eval_defs)
  show ?thesis
    using find_fit_correct [OF fl, of 16] find_fit_correct [OF fl, of 300] fl a b
    by auto
qed

end
